theory Spec2Isabelle
  imports Complex_Main
begin

section \<open>Data model of tempcontrol.c\<close>

text \<open>
  The seven temperature ranges of \<^verbatim>\<open>enum TempRange\<close>, with the enumerator values the
  source assigns. The source compares ranges as C integers, so the order of the ranges
  is the order of \<open>TempRange_val\<close>.
\<close>

datatype TempRange =
    TempBelow40
  | Temp40To45
  | Temp45To47
  | Temp47To49
  | Temp49To51
  | Temp51To53
  | TempAbove53

fun TempRange_val :: "TempRange \<Rightarrow> int" where
  "TempRange_val TempBelow40 = 0"
| "TempRange_val Temp40To45 = 1"
| "TempRange_val Temp45To47 = 2"
| "TempRange_val Temp47To49 = 3"
| "TempRange_val Temp49To51 = 4"
| "TempRange_val Temp51To53 = 5"
| "TempRange_val TempAbove53 = 6"

definition MAX_LED :: int where
  "MAX_LED = 3"

definition MAX_RANGE :: int where
  "MAX_RANGE = 7"

subsection \<open>temperatureRange\<close>

text \<open>
  The argument is a C \<^verbatim>\<open>double\<close>. The function only compares it with the integer
  constants 40, 45, 47, 49, 51 and 53, which are exact as doubles, so on a finite double
  each comparison is the comparison of the real numbers; the model takes a \<open>real\<close>.
\<close>

definition temperatureRange :: "real \<Rightarrow> TempRange" where
  "temperatureRange temperature =
     (if temperature < 40 then TempBelow40
      else if temperature < 45 then Temp40To45
      else if temperature < 47 then Temp45To47
      else if temperature < 49 then Temp47To49
      else if temperature < 51 then Temp49To51
      else if temperature < 53 then Temp51To53
      else TempAbove53)"

section \<open>The program state and its environment\<close>

text \<open>
  Everything the program does to the outside is recorded, in order, in a trace of events:
  calls of the wiringPi library, of \<^verbatim>\<open>close\<close>, of the display routine and of \<^verbatim>\<open>delay\<close>,
  and the lines printed. A formatted line is an event that carries its arguments.
\<close>

datatype message =
    InitFailed
  | CouldNotInitI2C
  | CouldNotOpenTemperatureFile
  | Usage
  | BannerSweepTemperatures
  | BannerSweepTempRanges
  | UnknownOption string
  | SimulatedTemperature real int
  | SettingsApplied int

datatype event =
    WiringPiSetup
  | I2CSetup int
  | WriteReg8 int int int
  | Close int
  | Fopen
  | Fread
  | ShowProperties real
  | Delay int
  | Stderr message
  | Stdout message

text \<open>
  The library calls whose results the program reads are answered by the environment:
  \<open>i2c_setup E k\<close> is what the \<open>k\<close>-th call of \<^verbatim>\<open>wiringPiI2CSetup\<close> returns (a
  descriptor, or a negative number when the bus cannot be opened), \<open>fopen_ok E\<close> says
  whether \<^verbatim>\<open>fopen\<close> of the temperature file succeeds, and \<open>fread_buf E k\<close> is the outcome
  of the \<open>k\<close>-th \<^verbatim>\<open>fread\<close>: whether it read anything, and the number \<^verbatim>\<open>atoi\<close> finds in
  the buffer afterwards (the buffer is not initialised, so after a failed read this is
  whatever the stack held).
\<close>

record env =
  i2c_setup :: "nat \<Rightarrow> int"
  fopen_ok :: bool
  fread_buf :: "nat \<Rightarrow> bool \<times> int"

text \<open>
  The globals \<^verbatim>\<open>gFileI2C\<close>, \<^verbatim>\<open>gTemperature\<close> and \<^verbatim>\<open>pFileTemperature\<close> (\<open>True\<close> when it is
  not \<^verbatim>\<open>NULL\<close>), the number of calls answered by the environment so far, and the trace.
\<close>

record world =
  gFileI2C :: int
  gTemperature :: real
  pFileTemperature :: bool
  setup_calls :: nat
  fread_calls :: nat
  trace :: "event list"

definition world_init :: world where
  "world_init =
     \<lparr>gFileI2C = 0, gTemperature = 0, pFileTemperature = False,
      setup_calls = 0, fread_calls = 0, trace = []\<rparr>"

definition emit :: "event \<Rightarrow> world \<Rightarrow> world" where
  "emit e w = w\<lparr>trace := trace w @ [e]\<rparr>"

subsection \<open>Library calls\<close>

definition wiringPiI2CSetup :: "env \<Rightarrow> int \<Rightarrow> world \<Rightarrow> int \<times> world" where
  "wiringPiI2CSetup E devId w =
     (i2c_setup E (setup_calls w),
      emit (I2CSetup devId) (w\<lparr>setup_calls := Suc (setup_calls w)\<rparr>))"

definition wiringPiI2CWriteReg8 :: "int \<Rightarrow> int \<Rightarrow> int \<Rightarrow> world \<Rightarrow> world" where
  "wiringPiI2CWriteReg8 fd reg data w = emit (WriteReg8 fd reg data) w"

definition delay :: "int \<Rightarrow> world \<Rightarrow> world" where
  "delay ms w = emit (Delay ms) w"

text \<open>
  \<^verbatim>\<open>showProperties\<close> draws the system properties and \<^verbatim>\<open>gTemperature\<close> on the display and
  returns 0 on every path; it changes no global. It is one event here.
\<close>

definition showProperties :: "world \<Rightarrow> int \<times> world" where
  "showProperties w = (0, emit (ShowProperties (gTemperature w)) w)"

subsection \<open>init\<close>

definition init :: "env \<Rightarrow> world \<Rightarrow> int \<times> world" where
  "init E w0 =
     (let w1 = emit WiringPiSetup w0;
          (fd, w2) = wiringPiI2CSetup E 0x0d w1;
          w3 = w2\<lparr>gFileI2C := fd\<rparr>;
          (returnValue3, w4) =
            (if gFileI2C w3 < 0 then (- 1, emit (Stderr CouldNotInitI2C) w3)
             else (0, w3));
          w5 = (emit Fopen w4)\<lparr>pFileTemperature := fopen_ok E\<rparr>
      in if \<not> pFileTemperature w5
         then (- 1, emit (Stderr CouldNotOpenTemperatureFile) w5)
         else (returnValue3, w5))"

subsection \<open>setRGB and setTempControls\<close>

definition setRGB :: "int \<Rightarrow> int \<Rightarrow> int \<Rightarrow> int \<Rightarrow> int \<Rightarrow> world \<Rightarrow> world" where
  "setRGB fd num R G B w =
     (if num \<ge> MAX_LED then
        wiringPiI2CWriteReg8 fd 0x03 B
          (wiringPiI2CWriteReg8 fd 0x02 G
            (wiringPiI2CWriteReg8 fd 0x01 R
              (wiringPiI2CWriteReg8 fd 0x00 0xff w)))
      else if num \<ge> 0 then
        wiringPiI2CWriteReg8 fd 0x03 B
          (wiringPiI2CWriteReg8 fd 0x02 G
            (wiringPiI2CWriteReg8 fd 0x01 R
              (wiringPiI2CWriteReg8 fd 0x00 num w)))
      else w)"

text \<open>
  The \<^verbatim>\<open>switch\<close> of \<^verbatim>\<open>setTempControls\<close>: the register writes of one range. The parameter
  is the integer value of the enum, as in C, where \<^verbatim>\<open>sweepTempRanges\<close> passes a cast loop
  counter; a value that is no enumerator takes the \<^verbatim>\<open>default\<close> branch and gives -1.
\<close>

definition setTempControls_switch :: "int \<Rightarrow> world \<Rightarrow> int \<times> world" where
  "setTempControls_switch tempRange w =
     (let fd = gFileI2C w in
      if tempRange = TempRange_val TempBelow40 then
        (0, setRGB fd MAX_LED 0x00 0x88 0x00 (wiringPiI2CWriteReg8 fd 0x08 0x00 w))
      else if tempRange = TempRange_val Temp40To45 then
        (0, setRGB fd MAX_LED 0x00 0x44 0x44 (wiringPiI2CWriteReg8 fd 0x08 0x02 w))
      else if tempRange = TempRange_val Temp45To47 then
        (0, setRGB fd MAX_LED 0x00 0x00 0x88 (wiringPiI2CWriteReg8 fd 0x08 0x04 w))
      else if tempRange = TempRange_val Temp47To49 then
        (0, setRGB fd MAX_LED 0x44 0x00 0x44 (wiringPiI2CWriteReg8 fd 0x08 0x06 w))
      else if tempRange = TempRange_val Temp49To51 then
        (0, setRGB fd MAX_LED 0x88 0x00 0x00 (wiringPiI2CWriteReg8 fd 0x08 0x08 w))
      else if tempRange = TempRange_val Temp51To53 then
        (0, setRGB fd MAX_LED 0xff 0x00 0x00 (wiringPiI2CWriteReg8 fd 0x08 0x09 w))
      else if tempRange = TempRange_val TempAbove53 then
        (0, setRGB fd MAX_LED 0xff 0xff 0xff (wiringPiI2CWriteReg8 fd 0x08 0x01 w))
      else (- 1, w))"

definition setTempControls :: "env \<Rightarrow> int \<Rightarrow> bool \<Rightarrow> world \<Rightarrow> int \<times> world" where
  "setTempControls E tempRange verbose w0 =
     (let w1 = (if gFileI2C w0 = 0
                then (case wiringPiI2CSetup E 0x0d w0 of (fd, w) \<Rightarrow> w\<lparr>gFileI2C := fd\<rparr>)
                else w0);
          (returnValue, w2) = setTempControls_switch tempRange w1;
          w3 = (if verbose then emit (Stdout (SettingsApplied tempRange)) w2 else w2);
          w4 = emit (Close (gFileI2C w3)) w3
      in (returnValue, w4\<lparr>gFileI2C := 0\<rparr>))"

subsection \<open>updateTemperature\<close>

text \<open>
  \<^verbatim>\<open>updateTemperature\<close> rewinds the file, reads up to 32 bytes without looking at what
  \<^verbatim>\<open>fread\<close> returns, and stores \<^verbatim>\<open>atoi(buf) / 1000.0\<close>. Its \<^verbatim>\<open>returnValue\<close> is set to 0 at
  its declaration and never assigned again. It is only called from \<^verbatim>\<open>runControlLoop\<close>,
  which \<^verbatim>\<open>main\<close> enters only after \<^verbatim>\<open>init\<close> returned 0, so the file pointer is not
  \<^verbatim>\<open>NULL\<close> there.
\<close>

definition updateTemperature :: "env \<Rightarrow> world \<Rightarrow> int \<times> world" where
  "updateTemperature E w0 =
     (let returnValue = 0;
          (ok, n) = fread_buf E (fread_calls w0);
          w1 = emit Fread (w0\<lparr>fread_calls := Suc (fread_calls w0)\<rparr>);
          w2 = w1\<lparr>gTemperature := real_of_int n / 1000\<rparr>
      in (returnValue, w2))"

subsection \<open>sweepTemperatures\<close>

text \<open>
  The body of the \<^verbatim>\<open>for\<close> loop of \<^verbatim>\<open>sweepTemperatures\<close>, on the loop counter, the local
  \<^verbatim>\<open>oldRange\<close> and the globals. The two \<^verbatim>\<open>fprintf\<close> calls are one event.
\<close>

definition sweepTemperatures_body ::
    "env \<Rightarrow> int \<Rightarrow> TempRange \<times> world \<Rightarrow> TempRange \<times> world" where
  "sweepTemperatures_body E i s =
     (case s of (oldRange, w0) \<Rightarrow>
        let w1 = w0\<lparr>gTemperature := real_of_int i\<rparr>;
            w2 = snd (showProperties w1);
            tempRange = temperatureRange (gTemperature w2);
            w3 = emit (Stderr (SimulatedTemperature (gTemperature w2)
                                 (TempRange_val tempRange))) w2;
            (oldRange', w4) =
              (if tempRange \<noteq> oldRange
               then (tempRange, snd (setTempControls E (TempRange_val tempRange) True w3))
               else (oldRange, w3))
        in (oldRange', delay 1000 w4))"

function sweepTemperatures_loop ::
    "env \<Rightarrow> int \<Rightarrow> TempRange \<times> world \<Rightarrow> TempRange \<times> world" where
  "sweepTemperatures_loop E i s =
     (if i < 65 then sweepTemperatures_loop E (i + 1) (sweepTemperatures_body E i s)
      else s)"
  by pat_completeness auto
termination
  by (relation "measure (\<lambda>(E, i, s). nat (65 - i))") auto

declare sweepTemperatures_loop.simps [simp del]

text \<open>
  \<^verbatim>\<open>sweepTemperatures\<close> is declared \<^verbatim>\<open>int\<close> and ends without a \<^verbatim>\<open>return\<close> statement: the
  value its caller receives is not determined by the source, so the model returns the
  final state only.
\<close>

definition sweepTemperatures :: "env \<Rightarrow> world \<Rightarrow> world" where
  "sweepTemperatures E w = snd (sweepTemperatures_loop E 30 (TempAbove53, w))"

subsection \<open>sweepTempRanges\<close>

function sweepTempRanges_descending :: "env \<Rightarrow> int \<Rightarrow> world \<Rightarrow> world" where
  "sweepTempRanges_descending E i w =
     (if i \<ge> 0
      then sweepTempRanges_descending E (i - 1)
             (delay 1000 (snd (setTempControls E i True w)))
      else w)"
  by pat_completeness auto
termination
  by (relation "measure (\<lambda>(E, i, w). nat (i + 1))") auto

declare sweepTempRanges_descending.simps [simp del]

function sweepTempRanges_ascending :: "env \<Rightarrow> int \<Rightarrow> world \<Rightarrow> world" where
  "sweepTempRanges_ascending E i w =
     (if i < MAX_RANGE
      then sweepTempRanges_ascending E (i + 1)
             (delay 1000 (snd (setTempControls E i True w)))
      else w)"
  by pat_completeness auto
termination
  by (relation "measure (\<lambda>(E, i, w). nat (MAX_RANGE - i))") auto

declare sweepTempRanges_ascending.simps [simp del]

definition sweepTempRanges :: "env \<Rightarrow> world \<Rightarrow> int \<times> world" where
  "sweepTempRanges E w =
     (0, sweepTempRanges_ascending E 0 (sweepTempRanges_descending E (MAX_RANGE - 1) w))"

subsection \<open>runControlLoop\<close>

text \<open>
  One pass through the body of \<^verbatim>\<open>while ( true )\<close>, on the locals \<^verbatim>\<open>returnValue\<close> and
  \<^verbatim>\<open>oldRange\<close> and the globals.
\<close>

definition runControlLoop_body ::
    "env \<Rightarrow> int \<times> TempRange \<times> world \<Rightarrow> int \<times> TempRange \<times> world" where
  "runControlLoop_body E s =
     (case s of (returnValue0, oldRange, w0) \<Rightarrow>
        let (returnValue1, w1) = updateTemperature E w0;
            w2 = snd (showProperties w1);
            (returnValue2, oldRange', w3) =
              (if returnValue1 = 0 then
                 (let tempRange = temperatureRange (gTemperature w2) in
                  if tempRange \<noteq> oldRange then
                    (case setTempControls E (TempRange_val tempRange) False w2 of
                       (r, w) \<Rightarrow> (r, tempRange, w))
                  else (returnValue1, oldRange, w2))
               else (returnValue1, oldRange, w2))
        in (returnValue2, oldRange', delay 5000 w3))"

text \<open>
  The loop has no exit: \<^verbatim>\<open>runControlLoop\<close> never returns. \<open>runControlLoop_cycles E n\<close> is
  the state after \<open>n\<close> passes, and \<open>runControlLoop E n\<close> starts it from the initial locals
  (\<^verbatim>\<open>returnValue = 0\<close>, \<^verbatim>\<open>oldRange = TempAbove53\<close>).
\<close>

fun runControlLoop_cycles ::
    "env \<Rightarrow> nat \<Rightarrow> int \<times> TempRange \<times> world \<Rightarrow> int \<times> TempRange \<times> world" where
  "runControlLoop_cycles E 0 s = s"
| "runControlLoop_cycles E (Suc n) s = runControlLoop_cycles E n (runControlLoop_body E s)"

definition runControlLoop :: "env \<Rightarrow> nat \<Rightarrow> world \<Rightarrow> int \<times> TempRange \<times> world" where
  "runControlLoop E n w = runControlLoop_cycles E n (0, TempAbove53, w)"

subsection \<open>main\<close>

text \<open>
  What \<^verbatim>\<open>main\<close> returns: a value, the undetermined value of \<^verbatim>\<open>sweepTemperatures\<close>, or
  nothing, when it is inside the control loop (observed for a number of passes).
\<close>

datatype exit_status = Exit int | ExitUndetermined | Running

text \<open>
  The statements of \<^verbatim>\<open>main\<close> below its first \<^verbatim>\<open>if\<close>. \<open>argv\<close> holds the program name and
  the arguments, \<^verbatim>\<open>argc\<close> is its length, and \<^verbatim>\<open>strcmp\<close> is 0 on equal strings.
\<close>

definition main_arguments :: "env \<Rightarrow> string list \<Rightarrow> world \<Rightarrow> exit_status \<times> world" where
  "main_arguments E argv w =
     (if length argv \<noteq> 3 \<or> argv ! 1 \<noteq> ''-t'' then
        (Exit (- 1), emit (Stderr Usage) w)
      else if argv ! 2 = ''sweepTemperatures'' then
        (ExitUndetermined, sweepTemperatures E (emit (Stderr BannerSweepTemperatures) w))
      else if argv ! 2 = ''sweepTempRanges'' then
        (case sweepTempRanges E (emit (Stderr BannerSweepTempRanges) w) of
           (r, w') \<Rightarrow> (Exit r, w'))
      else (Exit (- 1), emit (Stderr (UnknownOption (argv ! 2))) w))"

definition main :: "env \<Rightarrow> nat \<Rightarrow> string list \<Rightarrow> world \<Rightarrow> exit_status \<times> world" where
  "main E n argv w0 =
     (case init E w0 of (r, w1) \<Rightarrow>
        if r \<noteq> 0 then main_arguments E argv (emit (Stderr InitFailed) w1)
        else if length argv = 1 then (Running, snd (snd (runControlLoop E n w1)))
        else main_arguments E argv w1)"

section \<open>Observations on a trace\<close>

text \<open>The register writes of a trace, in order: descriptor, register, byte.\<close>

fun reg_writes :: "event list \<Rightarrow> (int \<times> int \<times> int) list" where
  "reg_writes [] = []"
| "reg_writes (WriteReg8 fd reg data # es) = (fd, reg, data) # reg_writes es"
| "reg_writes (e # es) = reg_writes es"

text \<open>The bytes written to the fan register 0x08: one per application of a range.\<close>

definition fan_writes :: "event list \<Rightarrow> int list" where
  "fan_writes es = map (\<lambda>(fd, reg, data). data) (filter (\<lambda>(fd, reg, data). reg = 0x08) (reg_writes es))"

fun renders :: "event list \<Rightarrow> real list" where
  "renders [] = []"
| "renders (ShowProperties t # es) = t # renders es"
| "renders (e # es) = renders es"

text \<open>The descriptor a call of \<^verbatim>\<open>setTempControls\<close> writes to.\<close>

definition channel :: "env \<Rightarrow> world \<Rightarrow> int" where
  "channel E w = (if gFileI2C w = 0 then i2c_setup E (setup_calls w) else gFileI2C w)"

text \<open>
  What is shown on the display when the fan register is written: each application of a
  range, as the pair of the temperature last rendered and the fan byte.
\<close>

fun applications :: "real \<Rightarrow> event list \<Rightarrow> (real \<times> int) list" where
  "applications t [] = []"
| "applications t (ShowProperties t' # es) = applications t' es"
| "applications t (WriteReg8 fd reg data # es) =
     (if reg = 0x08 then (t, data) # applications t es else applications t es)"
| "applications t (e # es) = applications t es"

fun shown :: "real \<Rightarrow> event list \<Rightarrow> real" where
  "shown t [] = t"
| "shown t (ShowProperties t' # es) = shown t' es"
| "shown t (e # es) = shown t es"

text \<open>The ranges reported on standard output by the verbose calls.\<close>

fun settings_applied :: "event list \<Rightarrow> int list" where
  "settings_applied [] = []"
| "settings_applied (Stdout (SettingsApplied r) # es) = r # settings_applied es"
| "settings_applied (e # es) = settings_applied es"

text \<open>The opening and closing of the bus in a trace.\<close>

fun channel_events :: "event list \<Rightarrow> event list" where
  "channel_events [] = []"
| "channel_events (I2CSetup a # es) = I2CSetup a # channel_events es"
| "channel_events (Close fd # es) = Close fd # channel_events es"
| "channel_events (e # es) = channel_events es"

text \<open>
  The pairs of register and byte that one call of \<open>setTempControls\<close> for the range \<open>b\<close>
  adds to the register writes of the trace.
\<close>

definition applied_writes :: "env \<Rightarrow> TempRange \<Rightarrow> bool \<Rightarrow> world \<Rightarrow> (int \<times> int) list" where
  "applied_writes E b verbose w =
     map (\<lambda>(fd, reg, data). (reg, data))
       (drop (length (reg_writes (trace w)))
          (reg_writes (trace (snd (setTempControls E (TempRange_val b) verbose w)))))"

text \<open>The temperature the \<open>k\<close>-th read of the file puts into \<^verbatim>\<open>gTemperature\<close>.\<close>

definition reading :: "env \<Rightarrow> nat \<Rightarrow> real" where
  "reading E k = real_of_int (snd (fread_buf E k)) / 1000"

section \<open>Closed forms\<close>

text \<open>
  The arguments of the arms of the \<^verbatim>\<open>switch\<close> in \<^verbatim>\<open>setTempControls\<close>, as tables: the byte
  written to the fan register and the colour given to \<^verbatim>\<open>setRGB\<close>, and the five register
  writes they make on the descriptor \<open>fd\<close>.
\<close>

fun fan_byte :: "TempRange \<Rightarrow> int" where
  "fan_byte TempBelow40 = 0x00"
| "fan_byte Temp40To45 = 0x02"
| "fan_byte Temp45To47 = 0x04"
| "fan_byte Temp47To49 = 0x06"
| "fan_byte Temp49To51 = 0x08"
| "fan_byte Temp51To53 = 0x09"
| "fan_byte TempAbove53 = 0x01"

fun led_colour :: "TempRange \<Rightarrow> int \<times> int \<times> int" where
  "led_colour TempBelow40 = (0x00, 0x88, 0x00)"
| "led_colour Temp40To45 = (0x00, 0x44, 0x44)"
| "led_colour Temp45To47 = (0x00, 0x00, 0x88)"
| "led_colour Temp47To49 = (0x44, 0x00, 0x44)"
| "led_colour Temp49To51 = (0x88, 0x00, 0x00)"
| "led_colour Temp51To53 = (0xff, 0x00, 0x00)"
| "led_colour TempAbove53 = (0xff, 0xff, 0xff)"

definition band_events :: "int \<Rightarrow> TempRange \<Rightarrow> event list" where
  "band_events fd b =
     (case led_colour b of (R, G, B) \<Rightarrow>
        [WriteReg8 fd 0x08 (fan_byte b),
         WriteReg8 fd 0x00 0xff,
         WriteReg8 fd 0x01 R,
         WriteReg8 fd 0x02 G,
         WriteReg8 fd 0x03 B])"

text \<open>The events of the parts of \<open>setTempControls\<close> around and inside the \<^verbatim>\<open>switch\<close>.\<close>

definition open_events :: "world \<Rightarrow> event list" where
  "open_events w = (if gFileI2C w = 0 then [I2CSetup 0x0d] else [])"

definition report :: "bool \<Rightarrow> int \<Rightarrow> event list" where
  "report verbose tempRange = (if verbose then [Stdout (SettingsApplied tempRange)] else [])"

definition switch_events :: "int \<Rightarrow> int \<Rightarrow> event list" where
  "switch_events fd tempRange =
     trace (snd (setTempControls_switch tempRange (world_init\<lparr>gFileI2C := fd\<rparr>)))"

definition switch_result :: "int \<Rightarrow> int" where
  "switch_result tempRange = fst (setTempControls_switch tempRange world_init)"

text \<open>One pass of either loop of \<open>sweepTempRanges\<close>.\<close>

definition sweep_step :: "env \<Rightarrow> int \<Rightarrow> world \<Rightarrow> world" where
  "sweep_step E i w = delay 1000 (snd (setTempControls E i True w))"

text \<open>
  What the loop of \<open>sweepTemperatures\<close> applies and renders from the counter \<open>i\<close> on, as
  functions of the counter and of \<^verbatim>\<open>oldRange\<close> alone.
\<close>

function sweep_applications :: "int \<Rightarrow> TempRange \<Rightarrow> (real \<times> int) list" where
  "sweep_applications i old =
     (if i < 65 then
        (let b = temperatureRange (real_of_int i) in
         (if b \<noteq> old then [(real_of_int i, fan_byte b)] else [])
           @ sweep_applications (i + 1) b)
      else [])"
  by pat_completeness auto
termination
  by (relation "measure (\<lambda>(i, old). nat (65 - i))") auto

declare sweep_applications.simps [simp del]

function sweep_renders :: "int \<Rightarrow> real list" where
  "sweep_renders i = (if i < 65 then real_of_int i # sweep_renders (i + 1) else [])"
  by pat_completeness auto
termination
  by (relation "measure (\<lambda>i. nat (65 - i))") auto

declare sweep_renders.simps [simp del]

section \<open>Environments of the scenarios\<close>

text \<open>
  A bench where the bus opens with descriptor 3 on every call and the temperature file
  opens; the file gives the listed readings, in thousandths of a degree, and then stays
  at 0.
\<close>

definition bench_env :: "int list \<Rightarrow> env" where
  "bench_env millis =
     \<lparr>i2c_setup = (\<lambda>k. 3), fopen_ok = True,
      fread_buf = (\<lambda>k. (True, if k < length millis then millis ! k else 0))\<rparr>"

text \<open>
  The bus opens in \<open>init\<close> (descriptor 3) and cannot be opened afterwards; the file reads
  38.000 and then 42.000 on every later read.
\<close>

definition unavailable_env :: env where
  "unavailable_env =
     \<lparr>i2c_setup = (\<lambda>k. if k = 0 then 3 else - 1), fopen_ok = True,
      fread_buf = (\<lambda>k. (True, if k = 0 then 38000 else 42000))\<rparr>"

text \<open>
  The globals as the first pass of the control loop leaves them in that environment (the
  handle reset to 0, one open and one read answered), on an empty trace.
\<close>

definition unavailable_world :: world where
  "unavailable_world =
     \<lparr>gFileI2C = 0, gTemperature = 38, pFileTemperature = True,
      setup_calls = 1, fread_calls = 1, trace = []\<rparr>"

text \<open>The bus opens and the temperature file cannot be opened: \<open>init\<close> returns -1.\<close>

definition nofile_env :: env where
  "nofile_env =
     \<lparr>i2c_setup = (\<lambda>k. 3), fopen_ok = False, fread_buf = (\<lambda>k. (False, 0))\<rparr>"


section \<open>Lemmas on the observations\<close>

lemma reg_writes_append: "reg_writes (xs @ ys) = reg_writes xs @ reg_writes ys"
  by (induction xs rule: reg_writes.induct) simp_all

lemma renders_append: "renders (xs @ ys) = renders xs @ renders ys"
  by (induction xs rule: renders.induct) simp_all

lemma channel_events_append:
  "channel_events (xs @ ys) = channel_events xs @ channel_events ys"
  by (induction xs rule: channel_events.induct) simp_all

lemma settings_applied_append:
  "settings_applied (xs @ ys) = settings_applied xs @ settings_applied ys"
  by (induction xs rule: settings_applied.induct) simp_all

lemma fan_writes_append: "fan_writes (xs @ ys) = fan_writes xs @ fan_writes ys"
  by (simp add: fan_writes_def reg_writes_append)

lemma shown_append: "shown t (xs @ ys) = shown (shown t xs) ys"
  by (induction t xs rule: shown.induct) simp_all

lemma applications_append:
  "applications t (xs @ ys) = applications t xs @ applications (shown t xs) ys"
  by (induction t xs rule: applications.induct) simp_all

lemma applications_band_events: "applications t (band_events fd b) = [(t, fan_byte b)]"
  by (simp add: band_events_def split: prod.split)

lemma shown_band_events: "shown t (band_events fd b) = t"
  by (simp add: band_events_def split: prod.split)

lemma renders_band_events: "renders (band_events fd b) = []"
  by (simp add: band_events_def split: prod.split)

lemma fan_writes_band_events: "fan_writes (band_events fd b) = [fan_byte b]"
  by (simp add: fan_writes_def band_events_def split: prod.split)

lemma reg_writes_band_events:
  "reg_writes (band_events fd b) =
     [(fd, 0x08, fan_byte b), (fd, 0x00, 0xff), (fd, 0x01, fst (led_colour b)),
      (fd, 0x02, fst (snd (led_colour b))), (fd, 0x03, snd (snd (led_colour b)))]"
  by (simp add: band_events_def split: prod.split)

lemma settings_applied_band_events: "settings_applied (band_events fd b) = []"
  by (simp add: band_events_def split: prod.split)

lemma channel_events_band_events: "channel_events (band_events fd b) = []"
  by (simp add: band_events_def split: prod.split)

section \<open>The closed form of setTempControls\<close>

lemma setRGB_all:
  "setRGB fd MAX_LED R G B w =
     w\<lparr>trace := trace w @ [WriteReg8 fd 0x00 0xff, WriteReg8 fd 0x01 R,
                             WriteReg8 fd 0x02 G, WriteReg8 fd 0x03 B]\<rparr>"
  by (simp add: setRGB_def wiringPiI2CWriteReg8_def emit_def)

lemma setTempControls_switch_eq:
  "setTempControls_switch tempRange w =
     (switch_result tempRange,
      w\<lparr>trace := trace w @ switch_events (gFileI2C w) tempRange\<rparr>)"
  by (simp add: setTempControls_switch_def switch_result_def switch_events_def setRGB_all
        wiringPiI2CWriteReg8_def emit_def world_init_def Let_def)

lemma switch_events_band: "switch_events fd (TempRange_val b) = band_events fd b"
  by (cases b)
     (simp_all add: switch_events_def setTempControls_switch_def setRGB_all
        wiringPiI2CWriteReg8_def emit_def world_init_def band_events_def Let_def)

lemma switch_result_band: "switch_result (TempRange_val b) = 0"
  by (cases b) (simp_all add: switch_result_def setTempControls_switch_def Let_def)


lemma setTempControls_eq:
  "setTempControls E tempRange verbose w =
     (switch_result tempRange,
      w\<lparr>gFileI2C := 0,
         setup_calls := (if gFileI2C w = 0 then Suc (setup_calls w) else setup_calls w),
         trace := trace w @ open_events w @ switch_events (channel E w) tempRange
                    @ report verbose tempRange @ [Close (channel E w)]\<rparr>)"
  by (simp add: setTempControls_def setTempControls_switch_eq wiringPiI2CSetup_def emit_def
        channel_def open_events_def report_def Let_def)

section \<open>The closed forms of the loop bodies\<close>

lemma updateTemperature_eq:
  "updateTemperature E w =
     (0, w\<lparr>gTemperature := reading E (fread_calls w),
           fread_calls := Suc (fread_calls w),
           trace := trace w @ [Fread]\<rparr>)"
  by (simp add: updateTemperature_def reading_def emit_def Let_def split: prod.split)

lemma runControlLoop_body_eq:
  "runControlLoop_body E (rv, old, w) =
     (let t = reading E (fread_calls w); b = temperatureRange t in
      if b \<noteq> old then
        (0, b, w\<lparr>gFileI2C := 0,
                 gTemperature := t,
                 setup_calls := (if gFileI2C w = 0 then Suc (setup_calls w) else setup_calls w),
                 fread_calls := Suc (fread_calls w),
                 trace := trace w @ [Fread, ShowProperties t] @ open_events w
                            @ band_events (channel E w) b @ [Close (channel E w), Delay 5000]\<rparr>)
      else
        (0, old, w\<lparr>gTemperature := t,
                   fread_calls := Suc (fread_calls w),
                   trace := trace w @ [Fread, ShowProperties t, Delay 5000]\<rparr>))"
  by (simp add: runControlLoop_body_def updateTemperature_eq showProperties_def
        setTempControls_eq switch_result_band switch_events_band report_def delay_def
        emit_def open_events_def channel_def Let_def)

lemma sweepTemperatures_body_eq:
  "sweepTemperatures_body E i (old, w) =
     (let t = real_of_int i; b = temperatureRange t in
      if b \<noteq> old then
        (b, w\<lparr>gFileI2C := 0,
              gTemperature := t,
              setup_calls := (if gFileI2C w = 0 then Suc (setup_calls w) else setup_calls w),
              trace := trace w
                         @ [ShowProperties t, Stderr (SimulatedTemperature t (TempRange_val b))]
                         @ open_events w @ band_events (channel E w) b
                         @ [Stdout (SettingsApplied (TempRange_val b)),
                            Close (channel E w), Delay 1000]\<rparr>)
      else
        (old, w\<lparr>gTemperature := t,
                trace := trace w
                           @ [ShowProperties t, Stderr (SimulatedTemperature t (TempRange_val b)),
                              Delay 1000]\<rparr>))"
  by (simp add: sweepTemperatures_body_def showProperties_def
        setTempControls_eq switch_result_band switch_events_band report_def delay_def
        emit_def open_events_def channel_def Let_def)

section \<open>The loop of sweepTemperatures\<close>

lemma sweepTemperatures_body_obs:
  "\<exists>evs. trace (snd (sweepTemperatures_body E i s)) = trace (snd s) @ evs \<and>
         (\<forall>t. applications t evs =
               (if temperatureRange (real_of_int i) \<noteq> fst s
                then [(real_of_int i, fan_byte (temperatureRange (real_of_int i)))]
                else [])) \<and>
         (\<forall>t. shown t evs = real_of_int i) \<and>
         renders evs = [real_of_int i]"
proof (cases s)
  case (Pair old w)
  show ?thesis
  proof (cases "temperatureRange (real_of_int i) = old")
    case True
    with Pair show ?thesis
      by (simp add: sweepTemperatures_body_eq Let_def)
  next
    case False
    with Pair show ?thesis
      by (simp add: sweepTemperatures_body_eq Let_def applications_append
            applications_band_events shown_band_events renders_append
            renders_band_events open_events_def shown_append)
  qed
qed

lemma sweepTemperatures_body_fst:
  "fst (sweepTemperatures_body E i s) = temperatureRange (real_of_int i)"
  by (cases s) (simp add: sweepTemperatures_body_eq Let_def)

lemma sweepTemperatures_loop_obs:
  "\<exists>evs. trace (snd (sweepTemperatures_loop E i s)) = trace (snd s) @ evs \<and>
         (\<forall>t. applications t evs = sweep_applications i (fst s)) \<and>
         renders evs = sweep_renders i"
proof (induction E i s rule: sweepTemperatures_loop.induct)
  case (1 E i s)
  show ?case
  proof (cases "i < 65")
    case False
    have "sweepTemperatures_loop E i s = s"
      using False by (simp add: sweepTemperatures_loop.simps [of E i s])
    moreover have "sweep_applications i (fst s) = []"
      using False by (simp add: sweep_applications.simps [of i "fst s"])
    moreover have "sweep_renders i = []"
      using False by (simp add: sweep_renders.simps [of i])
    ultimately show ?thesis by simp
  next
    case True
    let ?s' = "sweepTemperatures_body E i s"
    let ?b = "temperatureRange (real_of_int i)"
    from sweepTemperatures_body_obs [of E i s] obtain B where
      Ball: "trace (snd ?s') = trace (snd s) @ B \<and>
         (\<forall>t. applications t B =
               (if ?b \<noteq> fst s then [(real_of_int i, fan_byte ?b)] else [])) \<and>
         (\<forall>t. shown t B = real_of_int i) \<and>
         renders B = [real_of_int i]" ..
    from "1.IH" [OF True] obtain R where
      Rall: "trace (snd (sweepTemperatures_loop E (i + 1) ?s')) = trace (snd ?s') @ R \<and>
         (\<forall>t. applications t R = sweep_applications (i + 1) (fst ?s')) \<and>
         renders R = sweep_renders (i + 1)" ..
    have step: "sweepTemperatures_loop E i s = sweepTemperatures_loop E (i + 1) ?s'"
      using True by (simp add: sweepTemperatures_loop.simps [of E i s])
    have unfold_app: "sweep_applications i (fst s) =
        (if ?b \<noteq> fst s then [(real_of_int i, fan_byte ?b)] else [])
          @ sweep_applications (i + 1) ?b"
      using True by (simp add: sweep_applications.simps [of i "fst s"] Let_def)
    have unfold_rend: "sweep_renders i = real_of_int i # sweep_renders (i + 1)"
      using True by (simp add: sweep_renders.simps [of i])
    have t1: "trace (snd (sweepTemperatures_loop E i s)) = trace (snd s) @ (B @ R)"
      using Ball Rall by (simp only: step append_assoc)
    have t2: "\<forall>t. applications t (B @ R) = sweep_applications i (fst s)"
      using Ball Rall
      by (simp only: applications_append unfold_app sweepTemperatures_body_fst) simp
    have t3: "renders (B @ R) = sweep_renders i"
      using Ball Rall by (simp only: renders_append unfold_rend) simp
    from t1 t2 t3 show ?thesis
      by (intro exI [of _ "B @ R"] conjI)
  qed
qed

lemma sweep_applications_30:
  "sweep_applications 30 TempAbove53 =
     [(30, 0x00), (40, 0x02), (45, 0x04), (47, 0x06), (49, 0x08), (51, 0x09), (53, 0x01)]"
  by (simp add: sweep_applications.simps temperatureRange_def Let_def)

lemma sweep_renders_30: "sweep_renders 30 = map real_of_int [30..64]"
  by (simp add: sweep_renders.simps upto_rec_numeral)

lemma sweepTemperatures_obs:
  "applications t (trace (sweepTemperatures E w)) =
     applications t (trace w) @
       [(30, 0x00), (40, 0x02), (45, 0x04), (47, 0x06), (49, 0x08), (51, 0x09), (53, 0x01)] \<and>
   renders (trace (sweepTemperatures E w)) = renders (trace w) @ map real_of_int [30..64]"
proof -
  from sweepTemperatures_loop_obs [of E 30 "(TempAbove53, w)"] obtain evs where
    evs: "trace (snd (sweepTemperatures_loop E 30 (TempAbove53, w))) =
            trace (snd (TempAbove53, w)) @ evs \<and>
          (\<forall>t. applications t evs = sweep_applications 30 (fst (TempAbove53, w))) \<and>
          renders evs = sweep_renders 30" ..
  have tr: "trace (sweepTemperatures E w) = trace w @ evs"
    using evs by (simp add: sweepTemperatures_def)
  have app: "applications (shown t (trace w)) evs = sweep_applications 30 TempAbove53"
    using evs by simp
  have rend: "renders evs = sweep_renders 30"
    using evs by simp
  show ?thesis
    by (simp only: tr applications_append renders_append app rend
          sweep_applications_30 sweep_renders_30)
qed

section \<open>The loops of sweepTempRanges\<close>

lemma sweep_step_trace:
  "trace (sweep_step E (TempRange_val b) w) =
     trace w @ open_events w @ band_events (channel E w) b
       @ [Stdout (SettingsApplied (TempRange_val b)), Close (channel E w), Delay 1000]"
  by (simp add: sweep_step_def delay_def emit_def setTempControls_eq switch_events_band
        report_def)

lemma sweep_step_fan:
  "fan_writes (trace (sweep_step E (TempRange_val b) w)) =
     fan_writes (trace w) @ [fan_byte b]"
  by (simp add: sweep_step_trace fan_writes_append fan_writes_band_events)
     (simp add: fan_writes_def open_events_def)

lemma sweep_step_applied:
  "settings_applied (trace (sweep_step E (TempRange_val b) w)) =
     settings_applied (trace w) @ [TempRange_val b]"
  by (simp add: sweep_step_trace settings_applied_append settings_applied_band_events
        open_events_def)

lemma sweep_step_writes:
  "length (reg_writes (trace (sweep_step E (TempRange_val b) w))) =
     length (reg_writes (trace w)) + 5"
  by (simp add: sweep_step_trace reg_writes_append reg_writes_band_events open_events_def)

lemma sweepTempRanges_descending_6:
  "sweepTempRanges_descending E 6 w =
     sweep_step E 0 (sweep_step E 1 (sweep_step E 2 (sweep_step E 3
       (sweep_step E 4 (sweep_step E 5 (sweep_step E 6 w))))))"
  by (simp add: sweepTempRanges_descending.simps sweep_step_def)

lemma sweepTempRanges_ascending_0:
  "sweepTempRanges_ascending E 0 w =
     sweep_step E 6 (sweep_step E 5 (sweep_step E 4 (sweep_step E 3
       (sweep_step E 2 (sweep_step E 1 (sweep_step E 0 w))))))"
  by (simp add: sweepTempRanges_ascending.simps sweep_step_def MAX_RANGE_def)

lemmas sweep_step_fans =
  sweep_step_fan [of _ TempBelow40, simplified] sweep_step_fan [of _ Temp40To45, simplified]
  sweep_step_fan [of _ Temp45To47, simplified] sweep_step_fan [of _ Temp47To49, simplified]
  sweep_step_fan [of _ Temp49To51, simplified] sweep_step_fan [of _ Temp51To53, simplified]
  sweep_step_fan [of _ TempAbove53, simplified]

lemmas sweep_step_applieds =
  sweep_step_applied [of _ TempBelow40, simplified]
  sweep_step_applied [of _ Temp40To45, simplified]
  sweep_step_applied [of _ Temp45To47, simplified]
  sweep_step_applied [of _ Temp47To49, simplified]
  sweep_step_applied [of _ Temp49To51, simplified]
  sweep_step_applied [of _ Temp51To53, simplified]
  sweep_step_applied [of _ TempAbove53, simplified]

lemmas sweep_step_writess =
  sweep_step_writes [of _ TempBelow40, simplified]
  sweep_step_writes [of _ Temp40To45, simplified]
  sweep_step_writes [of _ Temp45To47, simplified]
  sweep_step_writes [of _ Temp47To49, simplified]
  sweep_step_writes [of _ Temp49To51, simplified]
  sweep_step_writes [of _ Temp51To53, simplified]
  sweep_step_writes [of _ TempAbove53, simplified]

lemma sweepTempRanges_obs:
  "fst (sweepTempRanges E w) = 0 \<and>
   settings_applied (trace (snd (sweepTempRanges E w))) =
     settings_applied (trace w) @ [6, 5, 4, 3, 2, 1, 0, 0, 1, 2, 3, 4, 5, 6] \<and>
   fan_writes (trace (snd (sweepTempRanges E w))) =
     fan_writes (trace w) @
       [0x01, 0x09, 0x08, 0x06, 0x04, 0x02, 0x00, 0x00, 0x02, 0x04, 0x06, 0x08, 0x09, 0x01] \<and>
   length (reg_writes (trace (snd (sweepTempRanges E w)))) =
     length (reg_writes (trace w)) + 70"
  by (simp add: sweepTempRanges_def MAX_RANGE_def sweepTempRanges_descending_6
        sweepTempRanges_ascending_0 sweep_step_fans sweep_step_applieds sweep_step_writess)

section \<open>Two passes of the control loop\<close>

lemma runControlLoop_body_range:
  "fst (snd (runControlLoop_body E (rv, old, w))) =
     temperatureRange (reading E (fread_calls w))"
  by (simp add: runControlLoop_body_eq Let_def)

lemma runControlLoop_body_gTemperature:
  "gTemperature (snd (snd (runControlLoop_body E (rv, old, w)))) = reading E (fread_calls w)"
  by (simp add: runControlLoop_body_eq Let_def)

lemma runControlLoop_body_fread_calls:
  "fread_calls (snd (snd (runControlLoop_body E (rv, old, w)))) = Suc (fread_calls w)"
  by (simp add: runControlLoop_body_eq Let_def)

lemma runControlLoop_body_same:
  "temperatureRange (reading E (fread_calls w)) = old \<Longrightarrow>
   trace (snd (snd (runControlLoop_body E (rv, old, w)))) =
     trace w @ [Fread, ShowProperties (reading E (fread_calls w)), Delay 5000]"
  by (simp add: runControlLoop_body_eq Let_def)

lemma runControlLoop_body_changed:
  "temperatureRange (reading E (fread_calls w)) \<noteq> old \<Longrightarrow>
   trace (snd (snd (runControlLoop_body E (rv, old, w)))) =
     trace w @ [Fread, ShowProperties (reading E (fread_calls w))] @ open_events w
       @ band_events (channel E w) (temperatureRange (reading E (fread_calls w)))
       @ [Close (channel E w), Delay 5000]"
  by (simp add: runControlLoop_body_eq Let_def)

lemma runControlLoop_cycles_2:
  "runControlLoop_cycles E 2 s = runControlLoop_body E (runControlLoop_body E s)"
  by (simp add: numeral_2_eq_2)

lemma runControlLoop_second_pass:
  assumes "temperatureRange (reading E (Suc (fread_calls w))) =
             temperatureRange (reading E (fread_calls w))"
  shows "trace (snd (snd (runControlLoop_cycles E 2 (rv, old, w)))) =
           trace (snd (snd (runControlLoop_body E (rv, old, w))))
             @ [Fread, ShowProperties (reading E (Suc (fread_calls w))), Delay 5000] \<and>
         fst (snd (runControlLoop_cycles E 2 (rv, old, w))) =
           temperatureRange (reading E (fread_calls w))"
proof -
  obtain rv1 old1 w1 where s1: "runControlLoop_body E (rv, old, w) = (rv1, old1, w1)"
    by (cases "runControlLoop_body E (rv, old, w)") auto
  have old1: "old1 = temperatureRange (reading E (fread_calls w))"
    using runControlLoop_body_range [of E rv old w] by (simp add: s1)
  have calls: "fread_calls w1 = Suc (fread_calls w)"
    using runControlLoop_body_fread_calls [of E rv old w] by (simp add: s1)
  have same: "temperatureRange (reading E (fread_calls w1)) = old1"
    using assms by (simp add: old1 calls)
  show ?thesis
    using runControlLoop_body_same [OF same, of rv1] runControlLoop_body_range [of E rv1 old1 w1]
      assms
    by (simp add: runControlLoop_cycles_2 s1 calls)
qed

section \<open>Properties of the classifier\<close>

text \<open>
  C1. For every temperature \<open>t\<close>, \<open>temperatureRange t\<close> is the one range of the table
  whose interval (lower bound inclusive, upper bound exclusive) holds \<open>t\<close>: the seven
  intervals \<open>(-\<infinity>, 40)\<close>, \<open>[40, 45)\<close>, \<open>[45, 47)\<close>, \<open>[47, 49)\<close>, \<open>[49, 51)\<close>, \<open>[51, 53)\<close>,
  \<open>[53, \<infinity>)\<close> partition the real line, a boundary value lies in the upper range, and
  45.0 is classified \<open>Temp45To47\<close>, not \<open>Temp40To45\<close>.
\<close>

theorem temperatureRange_partition:
  "(temperatureRange t = TempBelow40) = (t < 40) \<and>
   (temperatureRange t = Temp40To45) = (40 \<le> t \<and> t < 45) \<and>
   (temperatureRange t = Temp45To47) = (45 \<le> t \<and> t < 47) \<and>
   (temperatureRange t = Temp47To49) = (47 \<le> t \<and> t < 49) \<and>
   (temperatureRange t = Temp49To51) = (49 \<le> t \<and> t < 51) \<and>
   (temperatureRange t = Temp51To53) = (51 \<le> t \<and> t < 53) \<and>
   (temperatureRange t = TempAbove53) = (53 \<le> t) \<and>
   temperatureRange 40 = Temp40To45 \<and>
   temperatureRange 45 = Temp45To47 \<and>
   temperatureRange 47 = Temp47To49 \<and>
   temperatureRange 49 = Temp49To51 \<and>
   temperatureRange 51 = Temp51To53 \<and>
   temperatureRange 53 = TempAbove53 \<and>
   temperatureRange 45 \<noteq> Temp40To45"
  by (simp add: temperatureRange_def)

text \<open>
  C8. \<open>temperatureRange\<close> is monotonic: a lower temperature is never classified into a
  higher range, under the order TempBelow40 < Temp40To45 < Temp45To47 < Temp47To49 <
  Temp49To51 < Temp51To53 < TempAbove53 of the enumerator values.
\<close>

theorem temperatureRange_mono:
  "t1 < t2 \<Longrightarrow>
     TempRange_val (temperatureRange t1) \<le> TempRange_val (temperatureRange t2)"
  by (simp add: temperatureRange_def)

theorem temperatureRange_mono_witness:
  "(44.5::real) < 45 \<and>
     TempRange_val (temperatureRange 44.5) \<le> TempRange_val (temperatureRange 45) \<and>
     temperatureRange 44.5 = Temp40To45 \<and> temperatureRange 45 = Temp45To47"
  using temperatureRange_mono [of "44.5" "45"] by (simp add: temperatureRange_def)

section \<open>Properties of setTempControls\<close>

text \<open>
  C2. For every range, \<open>setTempControls\<close> returns 0 and makes exactly five register
  writes, all on the descriptor in use: one write of the fan register 0x08 with the fixed
  byte of the hardware table (TempBelow40 0x00, Temp40To45 0x02, Temp45To47 0x04,
  Temp47To49 0x06, Temp49To51 0x08, Temp51To53 0x09, TempAbove53 0x01), followed by
  exactly four colour writes: the all-LEDs marker 0xff to register 0, then R, G and B to
  registers 1, 2 and 3, with the colours (0,136,0), (0,68,68), (0,0,136), (68,0,68),
  (136,0,0), (255,0,0) and (255,255,255). The seven colours are pairwise distinct.
\<close>

theorem setTempControls_table:
  "fst (setTempControls E (TempRange_val b) verbose w) = 0 \<and>
   map fst (drop (length (reg_writes (trace w)))
              (reg_writes (trace (snd (setTempControls E (TempRange_val b) verbose w))))) =
     replicate 5 (channel E w) \<and>
   applied_writes E TempBelow40 verbose w =
     [(0x08, 0x00), (0x00, 0xff), (0x01, 0), (0x02, 136), (0x03, 0)] \<and>
   applied_writes E Temp40To45 verbose w =
     [(0x08, 0x02), (0x00, 0xff), (0x01, 0), (0x02, 68), (0x03, 68)] \<and>
   applied_writes E Temp45To47 verbose w =
     [(0x08, 0x04), (0x00, 0xff), (0x01, 0), (0x02, 0), (0x03, 136)] \<and>
   applied_writes E Temp47To49 verbose w =
     [(0x08, 0x06), (0x00, 0xff), (0x01, 68), (0x02, 0), (0x03, 68)] \<and>
   applied_writes E Temp49To51 verbose w =
     [(0x08, 0x08), (0x00, 0xff), (0x01, 136), (0x02, 0), (0x03, 0)] \<and>
   applied_writes E Temp51To53 verbose w =
     [(0x08, 0x09), (0x00, 0xff), (0x01, 255), (0x02, 0), (0x03, 0)] \<and>
   applied_writes E TempAbove53 verbose w =
     [(0x08, 0x01), (0x00, 0xff), (0x01, 255), (0x02, 255), (0x03, 255)] \<and>
   distinct (map (\<lambda>b. map snd (drop 2 (applied_writes E b verbose w)))
               [TempBelow40, Temp40To45, Temp45To47, Temp47To49,
                Temp49To51, Temp51To53, TempAbove53])"
proof -
  have writes: "\<And>b. reg_writes (trace (snd (setTempControls E (TempRange_val b) verbose w))) =
      reg_writes (trace w) @ reg_writes (band_events (channel E w) b)"
    by (simp add: setTempControls_eq switch_events_band reg_writes_append
          open_events_def report_def)
  have applied: "\<And>b. applied_writes E b verbose w =
      [(0x08, fan_byte b), (0x00, 0xff), (0x01, fst (led_colour b)),
       (0x02, fst (snd (led_colour b))), (0x03, snd (snd (led_colour b)))]"
    by (simp add: applied_writes_def writes reg_writes_band_events)
  have "fst (setTempControls E (TempRange_val b) verbose w) = 0"
    by (simp add: setTempControls_eq switch_result_band)
  moreover have "map fst (drop (length (reg_writes (trace w)))
              (reg_writes (trace (snd (setTempControls E (TempRange_val b) verbose w))))) =
     replicate 5 (channel E w)"
    by (simp add: writes reg_writes_band_events numeral_eq_Suc)
  ultimately show ?thesis
    by (simp add: applied)
qed



section \<open>Properties of the sweeps\<close>

text \<open>
  C3, as the code has it. \<open>sweepTemperatures\<close> renders the temperatures 30, 31, ..., 64
  in ascending order, one per pass, and applies a range exactly in the passes where the
  range differs from \<^verbatim>\<open>oldRange\<close>. \<^verbatim>\<open>oldRange\<close> starts as \<open>TempAbove53\<close>, so the first
  pass, at 30, applies \<open>TempBelow40\<close>; the others are the transitions at 40, 45, 47, 49,
  51 and 53: seven applications in all.
\<close>

theorem sweepTemperatures_applications:
  "applications t (trace (sweepTemperatures E w)) =
     applications t (trace w) @
       [(30, 0x00), (40, 0x02), (45, 0x04), (47, 0x06), (49, 0x08), (51, 0x09), (53, 0x01)] \<and>
   renders (trace (sweepTemperatures E w)) = renders (trace w) @ map real_of_int [30..64] \<and>
   length (applications t (trace (sweepTemperatures E w))) =
     length (applications t (trace w)) + 7"
  using sweepTemperatures_obs [of t E w] by simp

text \<open>
  Started on the empty trace, the sweep makes seven applications, not six, and the first
  is at 30, outside the transitions 40, 45, 47, 49, 51 and 53.
\<close>

theorem sweepTemperatures_six_counterexample:
  "length (applications 0 (trace (sweepTemperatures (bench_env []) world_init))) \<noteq> 6 \<and>
   applications 0 (trace (sweepTemperatures (bench_env []) world_init)) \<noteq>
     [(40, 0x02), (45, 0x04), (47, 0x06), (49, 0x08), (51, 0x09), (53, 0x01)] \<and>
   hd (applications 0 (trace (sweepTemperatures (bench_env []) world_init))) = (30, 0x00)"
  using sweepTemperatures_obs [of 0 "bench_env []" world_init]
  by (simp add: world_init_def)

text \<open>
  C7. \<open>sweepTempRanges\<close> returns 0 and applies every range on every pass, first in
  descending order (6 down to 0, TempAbove53 to TempBelow40) and then in ascending order
  (0 up to 6): fourteen applications, each reported, each writing its fan byte, with
  five register writes per application and none suppressed.
\<close>

theorem sweepTempRanges_fourteen:
  "fst (sweepTempRanges E w) = 0 \<and>
   settings_applied (trace (snd (sweepTempRanges E w))) =
     settings_applied (trace w) @
       map TempRange_val
         [TempAbove53, Temp51To53, Temp49To51, Temp47To49, Temp45To47, Temp40To45, TempBelow40,
          TempBelow40, Temp40To45, Temp45To47, Temp47To49, Temp49To51, Temp51To53, TempAbove53] \<and>
   fan_writes (trace (snd (sweepTempRanges E w))) =
     fan_writes (trace w) @
       [0x01, 0x09, 0x08, 0x06, 0x04, 0x02, 0x00, 0x00, 0x02, 0x04, 0x06, 0x08, 0x09, 0x01] \<and>
   length (fan_writes (trace (snd (sweepTempRanges E w)))) =
     length (fan_writes (trace w)) + 14 \<and>
   length (reg_writes (trace (snd (sweepTempRanges E w)))) =
     length (reg_writes (trace w)) + 14 * 5"
  using sweepTempRanges_obs [of E w] by simp

section \<open>Properties of the control loop\<close>

text \<open>
  C6, as the code has it. With the file reading 38, 42, 42 and 61 degrees and no
  arguments, \<open>main\<close> enters the control loop, and its first four passes render 38, 42, 42
  and 61 and apply, in order, TempBelow40 (fan byte 0x00) at 38, Temp40To45 (0x02) at the
  first 42, nothing at the second 42, and TempAbove53 (0x01) at 61: three applications of
  five register writes each, and four render calls. In general, when two consecutive
  passes classify the same range \<open>b\<close>, the two passes together make exactly one sequence
  of writes, in the first pass, when \<^verbatim>\<open>oldRange\<close> was another range before the first of
  them, and none when \<^verbatim>\<open>oldRange\<close> was \<open>b\<close> already; the second pass writes nothing in
  either case.
\<close>

theorem runControlLoop_suppression:
  "fst (main (bench_env [38000, 42000, 42000, 61000]) 4 [''tempcontrol''] world_init) =
     Running \<and>
   applications 0
     (trace (snd (main (bench_env [38000, 42000, 42000, 61000]) 4 [''tempcontrol''] world_init))) =
     [(38, 0x00), (42, 0x02), (61, 0x01)] \<and>
   renders
     (trace (snd (main (bench_env [38000, 42000, 42000, 61000]) 4 [''tempcontrol''] world_init))) =
     [38, 42, 42, 61] \<and>
   length (reg_writes
     (trace (snd (main (bench_env [38000, 42000, 42000, 61000]) 4 [''tempcontrol''] world_init)))) =
     3 * 5 \<and>
   (temperatureRange (reading E (fread_calls w)) = b \<and>
    temperatureRange (reading E (Suc (fread_calls w))) = b \<longrightarrow>
      reg_writes (trace (snd (snd (runControlLoop_cycles E 2 (rv, old, w))))) =
        reg_writes (trace w) @
          (if old = b then [] else reg_writes (band_events (channel E w) b)) \<and>
      fan_writes (trace (snd (snd (runControlLoop_cycles E 2 (rv, old, w))))) =
        fan_writes (trace w) @ (if old = b then [] else [fan_byte b]) \<and>
      reg_writes (trace (snd (snd (runControlLoop_cycles E 2 (rv, old, w))))) =
        reg_writes (trace (snd (snd (runControlLoop_body E (rv, old, w))))))"
proof -
  let ?E = "bench_env [38000, 42000, 42000, 61000]"
  have run: "main ?E 4 [''tempcontrol''] world_init =
      (Running, snd (snd (runControlLoop_body ?E (runControlLoop_body ?E
         (runControlLoop_body ?E (runControlLoop_body ?E
            (0, TempAbove53, snd (init ?E world_init))))))))"
    by (simp add: main_def runControlLoop_def eval_nat_numeral init_def Let_def
          wiringPiI2CSetup_def emit_def bench_env_def world_init_def split: prod.split)
  have start: "snd (init ?E world_init) =
      \<lparr>gFileI2C = 3, gTemperature = 0, pFileTemperature = True, setup_calls = 1,
       fread_calls = 0, trace = [WiringPiSetup, I2CSetup 0x0d, Fopen]\<rparr>"
    by (simp add: init_def Let_def wiringPiI2CSetup_def emit_def bench_env_def world_init_def)
  have trace4: "trace (snd (main ?E 4 [''tempcontrol''] world_init)) =
      [WiringPiSetup, I2CSetup 0x0d, Fopen,
       Fread, ShowProperties 38] @ band_events 3 TempBelow40 @ [Close 3, Delay 5000,
       Fread, ShowProperties 42, I2CSetup 0x0d] @ band_events 3 Temp40To45 @ [Close 3, Delay 5000,
       Fread, ShowProperties 42, Delay 5000,
       Fread, ShowProperties 61, I2CSetup 0x0d] @ band_events 3 TempAbove53 @ [Close 3, Delay 5000]"
    by (simp only: run start snd_conv)
       (simp add: runControlLoop_body_eq Let_def reading_def bench_env_def
          temperatureRange_def open_events_def channel_def)
  have scenario:
    "fst (main ?E 4 [''tempcontrol''] world_init) = Running \<and>
     applications 0 (trace (snd (main ?E 4 [''tempcontrol''] world_init))) =
       [(38, 0x00), (42, 0x02), (61, 0x01)] \<and>
     renders (trace (snd (main ?E 4 [''tempcontrol''] world_init))) = [38, 42, 42, 61] \<and>
     length (reg_writes (trace (snd (main ?E 4 [''tempcontrol''] world_init)))) = 3 * 5"
    by (simp add: trace4 band_events_def) (simp add: run)
  have general: "temperatureRange (reading E (fread_calls w)) = b \<and>
    temperatureRange (reading E (Suc (fread_calls w))) = b \<longrightarrow>
      reg_writes (trace (snd (snd (runControlLoop_cycles E 2 (rv, old, w))))) =
        reg_writes (trace w) @
          (if old = b then [] else reg_writes (band_events (channel E w) b)) \<and>
      fan_writes (trace (snd (snd (runControlLoop_cycles E 2 (rv, old, w))))) =
        fan_writes (trace w) @ (if old = b then [] else [fan_byte b]) \<and>
      reg_writes (trace (snd (snd (runControlLoop_cycles E 2 (rv, old, w))))) =
        reg_writes (trace (snd (snd (runControlLoop_body E (rv, old, w)))))"
  proof (intro impI)
    assume h: "temperatureRange (reading E (fread_calls w)) = b \<and>
      temperatureRange (reading E (Suc (fread_calls w))) = b"
    then have same: "temperatureRange (reading E (Suc (fread_calls w))) =
        temperatureRange (reading E (fread_calls w))"
      by simp
    have second: "trace (snd (snd (runControlLoop_cycles E 2 (rv, old, w)))) =
        trace (snd (snd (runControlLoop_body E (rv, old, w))))
          @ [Fread, ShowProperties (reading E (Suc (fread_calls w))), Delay 5000]"
      using runControlLoop_second_pass [OF same, of rv old] by simp
    show "reg_writes (trace (snd (snd (runControlLoop_cycles E 2 (rv, old, w))))) =
        reg_writes (trace w) @
          (if old = b then [] else reg_writes (band_events (channel E w) b)) \<and>
      fan_writes (trace (snd (snd (runControlLoop_cycles E 2 (rv, old, w))))) =
        fan_writes (trace w) @ (if old = b then [] else [fan_byte b]) \<and>
      reg_writes (trace (snd (snd (runControlLoop_cycles E 2 (rv, old, w))))) =
        reg_writes (trace (snd (snd (runControlLoop_body E (rv, old, w)))))"
    proof (cases "old = b")
      case True
      then have unchanged: "temperatureRange (reading E (fread_calls w)) = old"
        using h by simp
      have first: "trace (snd (snd (runControlLoop_body E (rv, old, w)))) =
          trace w @ [Fread, ShowProperties (reading E (fread_calls w)), Delay 5000]"
        using runControlLoop_body_same [OF unchanged, of rv] by simp
      show ?thesis
        by (simp only: second first) (simp add: True fan_writes_def reg_writes_append)
    next
      case False
      then have changed: "temperatureRange (reading E (fread_calls w)) \<noteq> old"
        using h by auto
      have first: "trace (snd (snd (runControlLoop_body E (rv, old, w)))) =
          trace w @ [Fread, ShowProperties (reading E (fread_calls w))] @ open_events w
            @ band_events (channel E w) b @ [Close (channel E w), Delay 5000]"
        using runControlLoop_body_changed [OF changed, of rv] h by simp
      show ?thesis
        by (simp only: second first)
           (simp add: False fan_writes_def reg_writes_append reg_writes_band_events
              open_events_def)
    qed
  qed
  from scenario general show ?thesis by blast
qed

text \<open>
  With no arguments and the file reading 61 degrees twice, the first two passes of the
  control loop classify TempAbove53 both times. \<^verbatim>\<open>oldRange\<close> starts as TempAbove53, so
  neither pass applies anything: the two passes make no sequence of writes, not one.
\<close>

theorem runControlLoop_one_sequence_counterexample:
  "fst (init (bench_env [61000, 61000]) world_init) = 0 \<and>
   temperatureRange (reading (bench_env [61000, 61000]) 0) = TempAbove53 \<and>
   temperatureRange (reading (bench_env [61000, 61000]) 1) = TempAbove53 \<and>
   fst (main (bench_env [61000, 61000]) 2 [''tempcontrol''] world_init) = Running \<and>
   renders (trace (snd (main (bench_env [61000, 61000]) 2 [''tempcontrol''] world_init))) =
     [61, 61] \<and>
   reg_writes (trace (snd (main (bench_env [61000, 61000]) 2 [''tempcontrol''] world_init))) =
     [] \<and>
   length (fan_writes
     (trace (snd (main (bench_env [61000, 61000]) 2 [''tempcontrol''] world_init)))) \<noteq> 1"
proof -
  let ?E = "bench_env [61000, 61000]"
  have start: "init ?E world_init =
      (0, \<lparr>gFileI2C = 3, gTemperature = 0, pFileTemperature = True, setup_calls = 1,
           fread_calls = 0, trace = [WiringPiSetup, I2CSetup 0x0d, Fopen]\<rparr>)"
    by (simp add: init_def Let_def wiringPiI2CSetup_def emit_def bench_env_def world_init_def)
  have r: "reading ?E 0 = 61" "reading ?E (Suc 0) = 61"
    by (simp_all add: reading_def bench_env_def)
  have run: "main ?E 2 [''tempcontrol''] world_init =
      (Running, snd (snd (runControlLoop_body ?E (runControlLoop_body ?E
         (0, TempAbove53, snd (init ?E world_init))))))"
    by (simp add: main_def runControlLoop_def eval_nat_numeral start)
  have trace2: "trace (snd (main ?E 2 [''tempcontrol''] world_init)) =
      [WiringPiSetup, I2CSetup 0x0d, Fopen,
       Fread, ShowProperties 61, Delay 5000, Fread, ShowProperties 61, Delay 5000]"
    by (simp only: run start snd_conv)
       (simp add: runControlLoop_body_eq Let_def r temperatureRange_def)
  show ?thesis
    by (simp add: trace2 fan_writes_def start r temperatureRange_def) (simp add: run)
qed

theorem runControlLoop_suppression_witness:
  "pFileTemperature (snd (init (bench_env [42000, 42000]) world_init)) \<and>
   temperatureRange (reading (bench_env [42000, 42000])
       (fread_calls (snd (init (bench_env [42000, 42000]) world_init)))) = Temp40To45 \<and>
   temperatureRange (reading (bench_env [42000, 42000])
       (Suc (fread_calls (snd (init (bench_env [42000, 42000]) world_init))))) = Temp40To45 \<and>
   reg_writes (trace (snd (snd (runControlLoop_cycles (bench_env [42000, 42000]) 2
       (0, TempAbove53, snd (init (bench_env [42000, 42000]) world_init)))))) =
     [(3, 0x08, 0x02), (3, 0x00, 0xff), (3, 0x01, 0), (3, 0x02, 68), (3, 0x03, 68)] \<and>
   fan_writes (trace (snd (snd (runControlLoop_cycles (bench_env [42000, 42000]) 2
       (0, TempAbove53, snd (init (bench_env [42000, 42000]) world_init)))))) = [0x02] \<and>
   reg_writes (trace (snd (snd (runControlLoop_cycles (bench_env [42000, 42000]) 2
       (0, Temp40To45, snd (init (bench_env [42000, 42000]) world_init)))))) = []"
proof -
  let ?E = "bench_env [42000, 42000]"
  let ?w = "snd (init ?E world_init)"
  have start: "?w =
      \<lparr>gFileI2C = 3, gTemperature = 0, pFileTemperature = True, setup_calls = 1,
       fread_calls = 0, trace = [WiringPiSetup, I2CSetup 0x0d, Fopen]\<rparr>"
    by (simp add: init_def Let_def wiringPiI2CSetup_def emit_def bench_env_def world_init_def)
  have k: "fread_calls ?w = 0" and p: "pFileTemperature ?w"
    and c: "channel ?E ?w = 3" and t: "reg_writes (trace ?w) = []" "fan_writes (trace ?w) = []"
    by (simp_all add: start channel_def fan_writes_def)
  have r: "reading ?E 0 = 42" "reading ?E (Suc 0) = 42"
    by (simp_all add: reading_def bench_env_def)
  have h: "temperatureRange (reading ?E (fread_calls ?w)) = Temp40To45 \<and>
           temperatureRange (reading ?E (Suc (fread_calls ?w))) = Temp40To45"
    by (simp add: k r temperatureRange_def)
  show ?thesis
    using h p runControlLoop_suppression [of ?E ?w Temp40To45 0 TempAbove53]
      runControlLoop_suppression [of ?E ?w Temp40To45 0 Temp40To45]
    by (simp add: c t reg_writes_band_events)
qed

text \<open>
  C4, as the code has it. In a pass of the control loop where the classified range
  differs from \<^verbatim>\<open>oldRange\<close>, \<^verbatim>\<open>oldRange\<close> becomes the classified range whatever the bus
  answers, so a next pass that classifies the same range opens nothing and writes
  nothing: an application made while the bus could not be opened is not tried again.
\<close>

theorem runControlLoop_no_retry:
  "temperatureRange (reading E (fread_calls w)) \<noteq> old \<Longrightarrow>
   temperatureRange (reading E (Suc (fread_calls w))) =
     temperatureRange (reading E (fread_calls w)) \<Longrightarrow>
   fst (snd (runControlLoop_body E (rv, old, w))) =
     temperatureRange (reading E (fread_calls w)) \<and>
   fst (snd (runControlLoop_cycles E 2 (rv, old, w))) =
     temperatureRange (reading E (fread_calls w)) \<and>
   reg_writes (trace (snd (snd (runControlLoop_cycles E 2 (rv, old, w))))) =
     reg_writes (trace (snd (snd (runControlLoop_body E (rv, old, w))))) \<and>
   channel_events (trace (snd (snd (runControlLoop_cycles E 2 (rv, old, w))))) =
     channel_events (trace (snd (snd (runControlLoop_body E (rv, old, w)))))"
  using runControlLoop_second_pass [of E w rv old]
  by (simp add: runControlLoop_body_range reg_writes_append channel_events_append)

text \<open>
  The bus is opened by \<open>init\<close> and cannot be opened afterwards. The first pass applies
  TempBelow40 on the descriptor of \<open>init\<close> and resets the handle. In the second pass the
  range is Temp40To45, the bus has to be opened and the open fails (-1), yet the call
  returns 0 and \<^verbatim>\<open>oldRange\<close> becomes Temp40To45 instead of staying TempBelow40; the
  third pass, with the same reading, opens nothing and writes nothing.
\<close>

theorem runControlLoop_retry_counterexample:
  "fst (init unavailable_env world_init) = 0 \<and>
   fst (snd (runControlLoop unavailable_env 1 (snd (init unavailable_env world_init)))) =
     TempBelow40 \<and>
   gFileI2C (snd (snd (runControlLoop unavailable_env 1 (snd (init unavailable_env world_init)))))
     = 0 \<and>
   channel unavailable_env
     (snd (snd (runControlLoop unavailable_env 1 (snd (init unavailable_env world_init))))) = - 1 \<and>
   temperatureRange (reading unavailable_env 1) = Temp40To45 \<and>
   fst (runControlLoop unavailable_env 2 (snd (init unavailable_env world_init))) = 0 \<and>
   fst (snd (runControlLoop unavailable_env 2 (snd (init unavailable_env world_init)))) \<noteq>
     TempBelow40 \<and>
   temperatureRange (reading unavailable_env 2) = Temp40To45 \<and>
   reg_writes (trace (snd (snd
       (runControlLoop unavailable_env 3 (snd (init unavailable_env world_init)))))) =
     reg_writes (trace (snd (snd
       (runControlLoop unavailable_env 2 (snd (init unavailable_env world_init)))))) \<and>
   channel_events (trace (snd (snd
       (runControlLoop unavailable_env 3 (snd (init unavailable_env world_init)))))) =
     channel_events (trace (snd (snd
       (runControlLoop unavailable_env 2 (snd (init unavailable_env world_init))))))"
proof -
  have start: "init unavailable_env world_init =
      (0, \<lparr>gFileI2C = 3, gTemperature = 0, pFileTemperature = True, setup_calls = 1,
           fread_calls = 0, trace = [WiringPiSetup, I2CSetup 0x0d, Fopen]\<rparr>)"
    by (simp add: init_def Let_def wiringPiI2CSetup_def emit_def unavailable_env_def
          world_init_def)
  have r38: "reading unavailable_env 0 = 38"
    and r42: "reading unavailable_env (Suc 0) = 42" "reading unavailable_env (Suc (Suc 0)) = 42"
    by (simp_all add: reading_def unavailable_env_def)
  have fails: "i2c_setup unavailable_env (Suc 0) = - 1"
    by (simp add: unavailable_env_def)
  show ?thesis
    by (simp add: start runControlLoop_def eval_nat_numeral runControlLoop_body_eq Let_def
          r38 r42 fails temperatureRange_def channel_def open_events_def
          reg_writes_append channel_events_append channel_events_band_events)
qed

theorem runControlLoop_no_retry_witness:
  "channel unavailable_env unavailable_world < 0 \<and>
   temperatureRange (reading unavailable_env (fread_calls unavailable_world)) \<noteq> TempBelow40 \<and>
   temperatureRange (reading unavailable_env (Suc (fread_calls unavailable_world))) =
     temperatureRange (reading unavailable_env (fread_calls unavailable_world)) \<and>
   fst (snd (runControlLoop_body unavailable_env (0, TempBelow40, unavailable_world))) =
     Temp40To45 \<and>
   fst (snd (runControlLoop_cycles unavailable_env 2 (0, TempBelow40, unavailable_world))) =
     Temp40To45 \<and>
   reg_writes (trace (snd (snd (runControlLoop_cycles unavailable_env 2
       (0, TempBelow40, unavailable_world))))) =
     reg_writes (trace (snd (snd (runControlLoop_body unavailable_env
       (0, TempBelow40, unavailable_world))))) \<and>
   channel_events (trace (snd (snd (runControlLoop_cycles unavailable_env 2
       (0, TempBelow40, unavailable_world))))) =
     [I2CSetup 0x0d, Close (- 1)]"
proof -
  have r: "reading unavailable_env (Suc 0) = 42" "reading unavailable_env (Suc (Suc 0)) = 42"
    by (simp_all add: reading_def unavailable_env_def)
  have k: "fread_calls unavailable_world = Suc 0"
    by (simp add: unavailable_world_def)
  have g: "gFileI2C unavailable_world = 0" "trace unavailable_world = []"
    by (simp_all add: unavailable_world_def)
  have c: "channel unavailable_env unavailable_world = - 1"
    by (simp add: channel_def unavailable_env_def unavailable_world_def)
  have h1: "temperatureRange (reading unavailable_env (fread_calls unavailable_world)) \<noteq>
              TempBelow40"
    by (simp add: k r temperatureRange_def)
  have h2: "temperatureRange (reading unavailable_env (Suc (fread_calls unavailable_world))) =
              temperatureRange (reading unavailable_env (fread_calls unavailable_world))"
    by (simp add: k r)
  have first: "channel_events (trace (snd (snd (runControlLoop_body unavailable_env
       (0, TempBelow40, unavailable_world))))) = [I2CSetup 0x0d, Close (- 1)]"
    using h1
    by (simp add: runControlLoop_body_eq Let_def c g open_events_def channel_events_append
          channel_events_band_events)
  have range: "temperatureRange (reading unavailable_env (fread_calls unavailable_world)) =
                 Temp40To45"
    by (simp add: k r temperatureRange_def)
  show ?thesis
    using runControlLoop_no_retry [OF h1 h2, of 0] c h1 h2 first range
    by simp
qed

section \<open>Properties of main and updateTemperature\<close>

text \<open>
  C5, at an input where the code departs from it. The temperature file cannot be opened,
  so \<open>init\<close> returns -1 and \<open>main\<close> prints that the initialisation failed; it then goes
  on to the argument checks. With the arguments \<^verbatim>\<open>-t sweepTemperatures\<close> it runs the
  whole temperature sweep (35 renders, 7 applications), and with \<^verbatim>\<open>-t sweepTempRanges\<close>
  the whole range sweep (14 applications). Only without arguments does it leave, with
  the usage message and -1.
\<close>

theorem main_init_failure_runs_sweeps:
  "fst (init nofile_env world_init) = - 1 \<and>
   Stderr InitFailed \<in>
     set (trace (snd (main nofile_env n [''tempcontrol'', ''-t'', ''sweepTemperatures''] world_init)))
   \<and>
   renders
     (trace (snd (main nofile_env n [''tempcontrol'', ''-t'', ''sweepTemperatures''] world_init))) =
     map real_of_int [30..64] \<and>
   applications 0
     (trace (snd (main nofile_env n [''tempcontrol'', ''-t'', ''sweepTemperatures''] world_init))) =
     [(30, 0x00), (40, 0x02), (45, 0x04), (47, 0x06), (49, 0x08), (51, 0x09), (53, 0x01)] \<and>
   main nofile_env n [''tempcontrol'', ''-t'', ''sweepTemperatures''] world_init =
     (ExitUndetermined,
      sweepTemperatures nofile_env
        (emit (Stderr BannerSweepTemperatures)
           (emit (Stderr InitFailed) (snd (init nofile_env world_init))))) \<and>
   fst (main nofile_env n [''tempcontrol'', ''-t'', ''sweepTempRanges''] world_init) = Exit 0 \<and>
   fan_writes
     (trace (snd (main nofile_env n [''tempcontrol'', ''-t'', ''sweepTempRanges''] world_init))) =
     [0x01, 0x09, 0x08, 0x06, 0x04, 0x02, 0x00, 0x00, 0x02, 0x04, 0x06, 0x08, 0x09, 0x01] \<and>
   main nofile_env n [''tempcontrol''] world_init =
     (Exit (- 1),
      emit (Stderr Usage) (emit (Stderr InitFailed) (snd (init nofile_env world_init))))"
proof -
  have start: "init nofile_env world_init =
      (- 1, \<lparr>gFileI2C = 3, gTemperature = 0, pFileTemperature = False, setup_calls = 1,
             fread_calls = 0,
             trace = [WiringPiSetup, I2CSetup 0x0d, Fopen,
                      Stderr CouldNotOpenTemperatureFile]\<rparr>)"
    by (simp add: init_def Let_def wiringPiI2CSetup_def emit_def nofile_env_def world_init_def)
  let ?w = "emit (Stderr BannerSweepTemperatures)
              (emit (Stderr InitFailed) (snd (init nofile_env world_init)))"
  let ?v = "emit (Stderr BannerSweepTempRanges)
              (emit (Stderr InitFailed) (snd (init nofile_env world_init)))"
  have m1: "main nofile_env n [''tempcontrol'', ''-t'', ''sweepTemperatures''] world_init =
      (ExitUndetermined, sweepTemperatures nofile_env ?w)"
    by (simp add: main_def main_arguments_def start)
  have m2: "main nofile_env n [''tempcontrol'', ''-t'', ''sweepTempRanges''] world_init =
      (Exit (fst (sweepTempRanges nofile_env ?v)), snd (sweepTempRanges nofile_env ?v))"
    by (simp add: main_def main_arguments_def start split: prod.split)
  have m3: "main nofile_env n [''tempcontrol''] world_init =
      (Exit (- 1),
       emit (Stderr Usage) (emit (Stderr InitFailed) (snd (init nofile_env world_init))))"
    by (simp add: main_def main_arguments_def start)
  have tw: "trace ?w = [WiringPiSetup, I2CSetup 0x0d, Fopen, Stderr CouldNotOpenTemperatureFile,
                        Stderr InitFailed, Stderr BannerSweepTemperatures]"
    and tv: "trace ?v = [WiringPiSetup, I2CSetup 0x0d, Fopen, Stderr CouldNotOpenTemperatureFile,
                        Stderr InitFailed, Stderr BannerSweepTempRanges]"
    by (simp_all add: start emit_def)
  obtain evs where evs: "trace (sweepTemperatures nofile_env ?w) = trace ?w @ evs"
    using sweepTemperatures_loop_obs [of nofile_env 30 "(TempAbove53, ?w)"]
    by (auto simp add: sweepTemperatures_def)
  have failed: "Stderr InitFailed \<in> set (trace (sweepTemperatures nofile_env ?w))"
    by (simp add: evs tw)
  show ?thesis
    using sweepTemperatures_obs [of 0 nofile_env ?w] sweepTempRanges_obs [of nofile_env ?v]
      failed
    by (simp add: m1 m2 m3 tw tv fan_writes_def) (simp add: start)
qed

text \<open>
  C10. \<open>updateTemperature\<close> returns 0 on every call, whatever the read of the file gave,
  also when it gave nothing; it stores what \<^verbatim>\<open>atoi\<close> finds in the buffer. So every pass
  of the control loop classifies the stored temperature and leaves \<^verbatim>\<open>oldRange\<close> equal to
  its range: the branch that skips classification and actuation is never taken, and the
  value \<open>runControlLoop\<close> keeps in \<^verbatim>\<open>returnValue\<close> is 0 after every pass.
\<close>

theorem updateTemperature_returns_zero:
  "fst (updateTemperature E w) = 0 \<and>
   gTemperature (snd (updateTemperature E w)) =
     real_of_int (snd (fread_buf E (fread_calls w))) / 1000 \<and>
   fst (runControlLoop_body E (rv, old, w)) = 0 \<and>
   fst (snd (runControlLoop_body E (rv, old, w))) =
     temperatureRange (gTemperature (snd (snd (runControlLoop_body E (rv, old, w))))) \<and>
   fst (updateTemperature (E\<lparr>fread_buf := (\<lambda>k. (False, g))\<rparr>) w) = 0 \<and>
   fst (snd (runControlLoop_body (E\<lparr>fread_buf := (\<lambda>k. (False, g))\<rparr>) (rv, old, w))) =
     temperatureRange (real_of_int g / 1000)"
  by (simp add: updateTemperature_eq runControlLoop_body_eq reading_def Let_def)

end
